theory Spec2Isabelle
  imports Main
begin

section \<open>Go values used by the controller\<close>

text \<open>
  A Go \<^verbatim>\<open>string\<close> and a Go \<^verbatim>\<open>[]byte\<close> are both byte sequences; HOL's
  \<^typ>\<open>char\<close> is a byte. The conversions \<^verbatim>\<open>[]byte(s)\<close> and \<^verbatim>\<open>string(b)\<close> copy
  the bytes.
\<close>

type_synonym bytes = "char list"

definition bytes_of_string :: "string \<Rightarrow> bytes" where
  "bytes_of_string s = s"

definition string_of_bytes :: "bytes \<Rightarrow> string" where
  "string_of_bytes b = b"

text \<open>
  A Go \<^verbatim>\<open>error\<close> value. \<open>StatusError reason message\<close> is an API status error of
  the cluster client, \<open>ErrorString message\<close> any other error (\<^verbatim>\<open>errors.New\<close>, file
  system and Vault client errors). A nil error is \<open>None\<close> of \<^typ>\<open>'a option\<close>.
\<close>

datatype error = ErrorString string | StatusError string string

text \<open>The one-character string of a single quote, for the log messages.\<close>

definition quote :: string where
  "quote = [CHR 0x27]"

definition errors_New :: "string \<Rightarrow> error" where
  "errors_New msg = ErrorString msg"

text \<open>\<^verbatim>\<open>apierrors.IsNotFound\<close>: the error is a status error whose reason is "NotFound".\<close>

fun IsNotFound :: "error option \<Rightarrow> bool" where
  "IsNotFound None = False"
| "IsNotFound (Some (ErrorString m)) = False"
| "IsNotFound (Some (StatusError reason m)) = (reason = ''NotFound'')"

text \<open>\<^verbatim>\<open>client.IgnoreNotFound\<close>: nil on a not-found error, the error itself otherwise.\<close>

definition IgnoreNotFound :: "error option \<Rightarrow> error option" where
  "IgnoreNotFound err = (if IsNotFound err then None else err)"

text \<open>A run-time panic of the Go program: a failed unchecked type assertion, or a
  dereference of a nil pointer.\<close>

datatype panic = TypeAssertionPanic string | NilDereferencePanic string

text \<open>
  A value of type \<^verbatim>\<open>interface{}\<close> as the Vault client decodes it from JSON. A Go map
  is an association list in the order one \<^verbatim>\<open>range\<close> loop visits it; its keys are
  distinct.
\<close>

datatype jvalue =
    JNil
  | JBool bool
  | JNumber string
  | JString string
  | JArray "jvalue list"
  | JObject "(string \<times> jvalue) list"

section \<open>Resources\<close>

record NamespacedName =
  Namespace :: string
  Name :: string

record Request =
  NamespacedName :: NamespacedName

record Result =
  Requeue :: bool
  RequeueAfter :: int

text \<open>
  Modelled from the spec: the declaration of the \<^verbatim>\<open>VaultSecret\<close> resource (package
  \<^verbatim>\<open>api/v1\<close>) is not among the sources. The fields are those the controller reads: the
  type meta (kind, API version), the object meta (name, namespace, UID) and the spec
  (store address, path, role, optional authentication mount path).
\<close>

record VaultSecretSpec =
  spec_VaultAddress :: string
  spec_Path :: string
  spec_Role :: string
  spec_AuthPath :: string

record VaultSecret =
  vs_APIVersion :: string
  vs_Kind :: string
  vs_Name :: string
  vs_Namespace :: string
  vs_UID :: string
  vs_Spec :: VaultSecretSpec

record OwnerReference =
  ref_APIVersion :: string
  ref_Kind :: string
  ref_Name :: string
  ref_UID :: string
  ref_Controller :: "bool option"
  ref_BlockOwnerDeletion :: "bool option"

text \<open>\<^verbatim>\<open>core.Secret\<close>: the object meta fields the controller sets, and the data map.\<close>

record Secret =
  sec_Name :: string
  sec_Namespace :: string
  sec_Annotations :: "string \<rightharpoonup> string"
  sec_OwnerReferences :: "OwnerReference list"
  sec_Data :: "string \<rightharpoonup> bytes"

text \<open>The Vault client's \<^verbatim>\<open>Secret\<close>: the payload map and the optional auth block.\<close>

record SecretAuth =
  ClientToken :: string

record VaultApiSecret =
  Data :: "(string \<times> jvalue) list"
  Auth :: "SecretAuth option"

record VaultConfig =
  Addr :: string
  AuthMethod :: string
  AuthPath :: string
  Role :: string
  Path :: string
  SkipVerify :: bool
  TLSSecret :: string
  ClientTimeout :: int

definition defaultJWTAuthMethod :: string where
  "defaultJWTAuthMethod = ''jwt''"

definition defaultJWTFile :: string where
  "defaultJWTFile = ''/var/run/secrets/kubernetes.io/serviceaccount/token''"

section \<open>The runtime scheme and the controller reference\<close>

text \<open>
  The scheme of the reconciler answers which group-version-kinds are registered for the
  Go type of the owner. \<open>GVKForObject\<close>, \<open>validateOwner\<close>,
  \<open>validateControllerRef\<close>, \<open>upsertOwnerRef\<close> and \<open>SetControllerReference\<close>
  follow the controller-runtime library (v0.11), which the controller calls.
\<close>

record GroupVersionKind =
  gvk_Group :: string
  gvk_Version :: string
  gvk_Kind :: string

record Scheme =
  VaultSecretKinds :: "GroupVersionKind list"

definition GroupVersion_String :: "GroupVersionKind \<Rightarrow> string" where
  "GroupVersion_String gvk =
     (if gvk_Group gvk = [] then gvk_Version gvk
      else gvk_Group gvk @ ''/'' @ gvk_Version gvk)"

definition GVKForObject :: "Scheme \<Rightarrow> error + GroupVersionKind" where
  "GVKForObject scheme =
     (case VaultSecretKinds scheme of
        [] \<Rightarrow> Inl (ErrorString ''no kind is registered for the type v1.VaultSecret'')
      | [gvk] \<Rightarrow> Inr gvk
      | _ \<Rightarrow> Inl (ErrorString ''multiple group-version-kinds associated with type''))"

definition validateOwner :: "VaultSecret \<Rightarrow> Secret \<Rightarrow> error option" where
  "validateOwner owner object =
     (let ownerNs = vs_Namespace owner in
      if ownerNs \<noteq> [] then
        (let objNs = sec_Namespace object in
         if objNs = [] then
           Some (ErrorString ''cluster-scoped resource must not have a namespace-scoped owner'')
         else if ownerNs \<noteq> objNs then
           Some (ErrorString ''cross-namespace owner references are disallowed'')
         else None)
      else None)"

definition referSameObject :: "OwnerReference \<Rightarrow> OwnerReference \<Rightarrow> bool" where
  "referSameObject a b =
     (ref_APIVersion a = ref_APIVersion b \<and> ref_Kind a = ref_Kind b \<and> ref_Name a = ref_Name b)"

definition validateControllerRef :: "OwnerReference \<Rightarrow> Secret \<Rightarrow> error option" where
  "validateControllerRef ref controlled =
     (case filter (\<lambda>e. ref_Controller e = Some True) (sec_OwnerReferences controlled) of
        [] \<Rightarrow> None
      | existing # _ \<Rightarrow>
          if \<not> referSameObject existing ref
          then Some (ErrorString ''Object is already owned by another controller'')
          else None)"

fun upsert_refs :: "OwnerReference \<Rightarrow> OwnerReference list \<Rightarrow> OwnerReference list" where
  "upsert_refs ref [] = [ref]"
| "upsert_refs ref (e # es) =
     (if referSameObject e ref then ref # es else e # upsert_refs ref es)"

definition upsertOwnerRef :: "OwnerReference \<Rightarrow> Secret \<Rightarrow> Secret" where
  "upsertOwnerRef ref object =
     object\<lparr>sec_OwnerReferences := upsert_refs ref (sec_OwnerReferences object)\<rparr>"

definition SetControllerReference ::
  "VaultSecret \<Rightarrow> Secret \<Rightarrow> Scheme \<Rightarrow> Secret \<times> error option" where
  "SetControllerReference owner controlled scheme =
     (case validateOwner owner controlled of
        Some err \<Rightarrow> (controlled, Some err)
      | None \<Rightarrow>
         (case GVKForObject scheme of
            Inl err \<Rightarrow> (controlled, Some err)
          | Inr gvk \<Rightarrow>
             (let ref = \<lparr>ref_APIVersion = GroupVersion_String gvk,
                         ref_Kind = gvk_Kind gvk,
                         ref_Name = vs_Name owner,
                         ref_UID = vs_UID owner,
                         ref_Controller = Some True,
                         ref_BlockOwnerDeletion = Some True\<rparr>
              in case validateControllerRef ref controlled of
                   Some err \<Rightarrow> (controlled, Some err)
                 | None \<Rightarrow> (upsertOwnerRef ref controlled, None))))"

section \<open>SecretMake\<close>

text \<open>
  The inner loop of \<open>SecretMake\<close>: every entry of the \<^verbatim>\<open>"data"\<close> map is asserted to
  be a string and stored as bytes; a value of another type panics.
\<close>

fun copy_entries ::
  "(string \<times> jvalue) list \<Rightarrow> (string \<rightharpoonup> bytes) \<Rightarrow> panic + (string \<rightharpoonup> bytes)" where
  "copy_entries [] secObjData = Inr secObjData"
| "copy_entries ((kk, vv) # rest) secObjData =
     (case vv of
        JString s \<Rightarrow> copy_entries rest (secObjData(kk \<mapsto> bytes_of_string s))
      | _ \<Rightarrow> Inl (TypeAssertionPanic ''interface conversion: interface {} is not string''))"

text \<open>
  The outer loop: only the entry under the key \<^verbatim>\<open>"data"\<close> is looked at, and it is
  asserted to be a string-keyed map.
\<close>

fun range_Data ::
  "(string \<times> jvalue) list \<Rightarrow> (string \<rightharpoonup> bytes) \<Rightarrow> panic + (string \<rightharpoonup> bytes)" where
  "range_Data [] secObjData = Inr secObjData"
| "range_Data ((k, v) # rest) secObjData =
     (if k = ''data'' then
        (case v of
           JObject kvs \<Rightarrow>
             (case copy_entries kvs secObjData of
                Inl p \<Rightarrow> Inl p
              | Inr secObjData' \<Rightarrow> range_Data rest secObjData')
         | _ \<Rightarrow> Inl (TypeAssertionPanic
                  ''interface conversion: interface {} is not map[string]interface {}''))
      else range_Data rest secObjData)"

text \<open>
  The reconciler embeds the cluster client and holds the scheme. The cluster answers a
  \<^verbatim>\<open>Get\<close> of either resource kind by its key, and a \<^verbatim>\<open>Create\<close> by the object; one
  reconciliation makes each of these calls at most once.
\<close>

record K8sClient =
  Get_VaultSecret :: "NamespacedName \<Rightarrow> error + VaultSecret"
  Get_Secret :: "NamespacedName \<Rightarrow> error + Secret"
  Create :: "Secret \<Rightarrow> error option"

record VaultSecretReconciler =
  Client :: K8sClient
  Scheme :: Scheme

text \<open>
  \<open>SecretMake\<close> returns the Secret and a (nil) error, or panics. The error that
  \<open>SetControllerReference\<close> returns is discarded, as in the source.
\<close>

definition SecretMake ::
  "VaultSecretReconciler \<Rightarrow> VaultSecret \<Rightarrow> VaultApiSecret option
     \<Rightarrow> panic + (Secret \<times> error option)" where
  "SecretMake r es secret =
     (case (case secret of
              None \<Rightarrow> Inr Map.empty
            | Some sec \<Rightarrow> range_Data (Data sec) Map.empty) of
        Inl p \<Rightarrow> Inl p
      | Inr secObjData \<Rightarrow>
          (let s = \<lparr>sec_Name = vs_Name es,
                    sec_Namespace = vs_Namespace es,
                    sec_Annotations = [vs_APIVersion es \<mapsto> vs_Kind es],
                    sec_OwnerReferences = [],
                    sec_Data = secObjData\<rparr>;
               s' = fst (SetControllerReference es s (Scheme r))
           in Inr (s', None)))"

section \<open>Effects: the trace of calls, and panics\<close>

text \<open>
  What the controller does to the outside is recorded as a trace of events, in the order
  of the calls: log lines, cluster calls, the read of the token file, and the two
  exchanges with the Vault server.
\<close>

datatype event =
    EvLogInfo string
  | EvLogError error string "string list"
  | EvGetVaultSecret NamespacedName
  | EvGetSecret NamespacedName
  | EvCreate Secret
  | EvReadFile string
  | EvVaultWrite string "(string \<times> jvalue) list"
  | EvVaultRead string string

type_synonym 'a run = "event list \<times> (panic + 'a)"

definition returns :: "'a \<Rightarrow> 'a run" where
  "returns x = ([], Inr x)"

definition panics :: "panic \<Rightarrow> 'a run" where
  "panics p = ([], Inl p)"

definition emit :: "event \<Rightarrow> unit run" where
  "emit e = ([e], Inr ())"

definition call :: "event \<Rightarrow> 'a \<Rightarrow> 'a run" where
  "call e answer = ([e], Inr answer)"

definition andThen :: "'a run \<Rightarrow> ('a \<Rightarrow> 'b run) \<Rightarrow> 'b run" where
  "andThen m f =
     (case m of
        (t, Inl p) \<Rightarrow> (t, Inl p)
      | (t, Inr x) \<Rightarrow> (case f x of (t', y) \<Rightarrow> (t @ t', y)))"

definition trace :: "'a run \<Rightarrow> event list" where
  "trace m = fst m"

definition outcome :: "'a run \<Rightarrow> panic + 'a" where
  "outcome m = snd m"

section \<open>The Vault client\<close>

text \<open>
  The process environment, the file system and the Vault library and server, as the
  controller sees them: each call is answered by its arguments.
\<close>

record VaultClient =
  client_Address :: string
  client_Token :: string

record System =
  Getenv :: "string \<Rightarrow> string"
  ReadFile :: "string \<Rightarrow> error + bytes"
  DefaultConfig_Error :: "error option"
  ConfigureTLS :: "bool \<Rightarrow> error option"
  NewClient :: "string \<Rightarrow> error option"
  Logical_Write ::
    "VaultClient \<Rightarrow> string \<Rightarrow> (string \<times> jvalue) list \<Rightarrow> error + VaultApiSecret option"
  Logical_Read :: "VaultClient \<Rightarrow> string \<Rightarrow> error + VaultApiSecret option"

definition newVaultClient :: "System \<Rightarrow> VaultConfig \<Rightarrow> error + VaultClient" where
  "newVaultClient sys vaultConfig =
     (case DefaultConfig_Error sys of
        Some err \<Rightarrow> Inl err
      | None \<Rightarrow>
         (case ConfigureTLS sys (SkipVerify vaultConfig) of
            Some err \<Rightarrow> Inl err
          | None \<Rightarrow>
             (case NewClient sys (Addr vaultConfig) of
                Some err \<Rightarrow> Inl err
              | None \<Rightarrow> Inr \<lparr>client_Address = Addr vaultConfig, client_Token = []\<rparr>)))"

text \<open>The path of the identity-token file (lines 166-171 of \<open>VaultReadSecret\<close>): the
  first non-empty of the two environment variables, else the default.\<close>

definition jwtFile :: "System \<Rightarrow> string" where
  "jwtFile sys =
     (if Getenv sys ''KUBERNETES_SERVICE_ACCOUNT_TOKEN'' \<noteq> []
      then Getenv sys ''KUBERNETES_SERVICE_ACCOUNT_TOKEN''
      else if Getenv sys ''VAULT_JWT_FILE'' \<noteq> []
      then Getenv sys ''VAULT_JWT_FILE''
      else defaultJWTFile)"

text \<open>The login exchange and the read that follows it (lines 179-197 of
  \<open>VaultReadSecret\<close>, after the token file was read). A nil login response, or one
  without an auth block, is dereferenced: a panic.\<close>

definition login_and_read ::
  "System \<Rightarrow> VaultClient \<Rightarrow> VaultConfig \<Rightarrow> bytes
     \<Rightarrow> (VaultApiSecret option \<times> error option) run" where
  "login_and_read sys client vaultConfig jwt =
     (let loginData = [(''jwt'', JString (string_of_bytes jwt)),
                       (''role'', JString (Role vaultConfig))];
          loginPath = ''auth/'' @ AuthPath vaultConfig @ ''/login''
      in andThen (call (EvVaultWrite loginPath loginData)
                    (Logical_Write sys client loginPath loginData))
           (\<lambda>written. case written of
              Inl err \<Rightarrow>
                andThen (emit (EvLogError err ''failed to authenticate'' []))
                  (\<lambda>_. returns (None, Some err))
            | Inr None \<Rightarrow> panics (NilDereferencePanic ''secret.Auth'')
            | Inr (Some secret) \<Rightarrow>
               (case Auth secret of
                  None \<Rightarrow> panics (NilDereferencePanic ''secret.Auth.ClientToken'')
                | Some auth \<Rightarrow>
                   (let client' = client\<lparr>client_Token := ClientToken auth\<rparr>
                    in andThen (call (EvVaultRead (client_Token client') (Path vaultConfig))
                                  (Logical_Read sys client' (Path vaultConfig)))
                         (\<lambda>rd. case rd of
                            Inl err \<Rightarrow>
                              andThen (emit (EvLogError err
                                         (''can't read secret '' @ quote @ Path vaultConfig
                                            @ quote @ '' from the Vault'') []))
                                (\<lambda>_. returns (None, Some err))
                          | Inr data \<Rightarrow> returns (data, None))))))"

definition VaultReadSecret ::
  "System \<Rightarrow> VaultConfig \<Rightarrow> (VaultApiSecret option \<times> error option) run" where
  "VaultReadSecret sys vaultConfig =
     andThen (emit (EvLogInfo (''fetching Vault secret '' @ quote @ Path vaultConfig
                                 @ quote @ '' from the '' @ Addr vaultConfig)))
       (\<lambda>_. case newVaultClient sys vaultConfig of
          Inl err \<Rightarrow> returns (None, Some err)
        | Inr client \<Rightarrow>
            if AuthMethod vaultConfig \<noteq> defaultJWTAuthMethod then
              returns (None, Some (errors_New (''unsupported Auth method: ''
                                                 @ AuthMethod vaultConfig)))
            else
              andThen (call (EvReadFile (jwtFile sys)) (ReadFile sys (jwtFile sys)))
                (\<lambda>rd. case rd of
                   Inl err \<Rightarrow> returns (None, Some err)
                 | Inr jwt \<Rightarrow> login_and_read sys client vaultConfig jwt))"

section \<open>Reconcile\<close>

text \<open>The configuration \<open>Reconcile\<close> builds from the request (lines 89-98).\<close>

definition make_config :: "VaultSecret \<Rightarrow> VaultConfig" where
  "make_config vaultSecret =
     \<lparr>Addr = spec_VaultAddress (vs_Spec vaultSecret),
      AuthMethod = defaultJWTAuthMethod,
      AuthPath = (if length (spec_AuthPath (vs_Spec vaultSecret)) > 0
                  then spec_AuthPath (vs_Spec vaultSecret) else ''kubernetes''),
      Role = spec_Role (vs_Spec vaultSecret),
      Path = spec_Path (vs_Spec vaultSecret),
      SkipVerify = False,
      TLSSecret = [],
      ClientTimeout = 0\<rparr>"

text \<open>The branch \<open>Reconcile\<close> takes when the child Secret is not found (lines
  108-130). The error of the fetch is logged and nothing is returned for it.\<close>

definition create_child ::
  "VaultSecretReconciler \<Rightarrow> System \<Rightarrow> VaultSecret \<Rightarrow> VaultConfig
     \<Rightarrow> (Result \<times> error option) run" where
  "create_child r sys vaultSecret config =
     andThen (VaultReadSecret sys config)
       (\<lambda>(secData, err).
          andThen (case err of
                     Some e \<Rightarrow> emit (EvLogError e ''can't read the data from the Vault'' [])
                   | None \<Rightarrow> returns ())
            (\<lambda>_. case SecretMake r vaultSecret secData of
               Inl p \<Rightarrow> panics p
             | Inr (secret, Some e) \<Rightarrow>
                 andThen (emit (EvLogError e
                            (''Failed to generate a Secret resource for the ''
                               @ sec_Name secret) []))
                   (\<lambda>_. returns (\<lparr>Requeue = False, RequeueAfter = 0\<rparr>, Some e))
             | Inr (secret, None) \<Rightarrow>
                 andThen (emit (EvLogInfo (''deploying a new child Secret: ''
                            @ sec_Name secret @ '' at '' @ sec_Namespace secret
                            @ '' namespace'')))
                   (\<lambda>_. andThen (call (EvCreate secret) (Create (Client r) secret))
                      (\<lambda>created. case created of
                         Some e \<Rightarrow>
                           andThen (emit (EvLogError e
                                      (''failed to deploy a child Secret ''
                                         @ sec_Name secret @ '' at ''
                                         @ sec_Namespace secret @ '' namespace'') []))
                             (\<lambda>_. returns (\<lparr>Requeue = False, RequeueAfter = 0\<rparr>, Some e))
                       | None \<Rightarrow>
                           returns (\<lparr>Requeue = True, RequeueAfter = 0\<rparr>, None)))))"

definition Reconcile ::
  "VaultSecretReconciler \<Rightarrow> System \<Rightarrow> Request \<Rightarrow> (Result \<times> error option) run" where
  "Reconcile r sys req =
     andThen (emit (EvLogInfo (''starting vaultSecretReconciler for: '' @ quote
                                 @ Name (NamespacedName req) @ quote)))
       (\<lambda>_. andThen (call (EvGetVaultSecret (NamespacedName req))
                        (Get_VaultSecret (Client r) (NamespacedName req)))
          (\<lambda>got. case got of
             Inl err \<Rightarrow>
               andThen (emit (EvLogError err ''unable to get vaultSecret resource'' []))
                 (\<lambda>_. returns (\<lparr>Requeue = False, RequeueAfter = 0\<rparr>,
                                IgnoreNotFound (Some err)))
           | Inr vaultSecret \<Rightarrow>
              (let config = make_config vaultSecret;
                   key = \<lparr>Namespace = vs_Namespace vaultSecret, Name = vs_Name vaultSecret\<rparr>
               in andThen (call (EvGetSecret key) (Get_Secret (Client r) key))
                    (\<lambda>found.
                       (let err = (case found of Inl e \<Rightarrow> Some e | Inr _ \<Rightarrow> None) in
                        case err of
                          Some e \<Rightarrow>
                            if \<not> IsNotFound err then
                              andThen (emit (EvLogError e
                                         ''unable to get child Secret for the''
                                         [vs_Name vaultSecret]))
                                (\<lambda>_. returns (\<lparr>Requeue = False, RequeueAfter = 0\<rparr>, err))
                            else create_child r sys vaultSecret config
                        | None \<Rightarrow>
                            returns (\<lparr>Requeue = False, RequeueAfter = 0\<rparr>, None))))))"

section \<open>Shapes of the payload\<close>

text \<open>
  The shape \<open>SecretMake\<close> expects of a payload: every entry under the key \<^verbatim>\<open>"data"\<close>
  is a string-keyed map all of whose values are strings. \<open>string_entries\<close> is such a
  map, built from its key/string pairs.
\<close>

fun is_string :: "jvalue \<Rightarrow> bool" where
  "is_string (JString s) = True"
| "is_string _ = False"

fun is_string_map :: "jvalue \<Rightarrow> bool" where
  "is_string_map (JObject kvs) = list_all (\<lambda>(kk, vv). is_string vv) kvs"
| "is_string_map _ = False"

definition data_well_shaped :: "VaultApiSecret option \<Rightarrow> bool" where
  "data_well_shaped secret =
     (case secret of
        None \<Rightarrow> True
      | Some sec \<Rightarrow> list_all (\<lambda>(k, v). k = ''data'' \<longrightarrow> is_string_map v) (Data sec))"

definition string_entries :: "(string \<times> string) list \<Rightarrow> (string \<times> jvalue) list" where
  "string_entries strs = map (\<lambda>(k, s). (k, JString s)) strs"

section \<open>Example inputs\<close>

text \<open>
  The scenario of the specification: a request \<^verbatim>\<open>default/test\<close> for the path
  \<^verbatim>\<open>secret/test\<close> with the role \<^verbatim>\<open>vault-op\<close>, a token \<^verbatim>\<open>tok-123\<close>, a session
  token \<^verbatim>\<open>sess-456\<close> and the payload \<^verbatim>\<open>{data: {password: hunter2}}\<close>; and variants
  of it in which one collaborator fails.
\<close>

definition example_vaultSecret :: VaultSecret where
  "example_vaultSecret =
     \<lparr>vs_APIVersion = ''apps.vault.op/v1'', vs_Kind = ''VaultSecret'',
      vs_Name = ''test'', vs_Namespace = ''default'', vs_UID = ''uid-1'',
      vs_Spec = \<lparr>spec_VaultAddress = ''http://vault:8200'', spec_Path = ''secret/test'',
                 spec_Role = ''vault-op'', spec_AuthPath = ''kubernetes''\<rparr>\<rparr>"

definition example_request :: Request where
  "example_request = \<lparr>NamespacedName = \<lparr>Namespace = ''default'', Name = ''test''\<rparr>\<rparr>"

definition example_scheme :: Scheme where
  "example_scheme =
     \<lparr>VaultSecretKinds = [\<lparr>gvk_Group = ''apps.vault.op'', gvk_Version = ''v1'',
                           gvk_Kind = ''VaultSecret''\<rparr>]\<rparr>"

definition not_found :: error where
  "not_found = StatusError ''NotFound'' ''secrets test not found''"

definition reconciler_absent :: VaultSecretReconciler where
  "reconciler_absent =
     \<lparr>Client = \<lparr>Get_VaultSecret = (\<lambda>k. Inr example_vaultSecret),
                 Get_Secret = (\<lambda>k. Inl not_found),
                 Create = (\<lambda>s. None)\<rparr>,
      Scheme = example_scheme\<rparr>"

definition existing_secret :: Secret where
  "existing_secret =
     \<lparr>sec_Name = ''test'', sec_Namespace = ''default'', sec_Annotations = Map.empty,
      sec_OwnerReferences = [], sec_Data = [''password'' \<mapsto> ''old'']\<rparr>"

definition reconciler_present :: VaultSecretReconciler where
  "reconciler_present =
     \<lparr>Client = \<lparr>Get_VaultSecret = (\<lambda>k. Inr example_vaultSecret),
                 Get_Secret = (\<lambda>k. Inr existing_secret),
                 Create = (\<lambda>s. None)\<rparr>,
      Scheme = example_scheme\<rparr>"

definition example_system :: System where
  "example_system =
     \<lparr>Getenv = (\<lambda>k. []),
      ReadFile = (\<lambda>p. Inr ''tok-123''),
      DefaultConfig_Error = None,
      ConfigureTLS = (\<lambda>insecure. None),
      NewClient = (\<lambda>addr. None),
      Logical_Write = (\<lambda>c p d. Inr (Some \<lparr>Data = [], Auth = Some \<lparr>ClientToken = ''sess-456''\<rparr>\<rparr>)),
      Logical_Read = (\<lambda>c p. Inr (Some \<lparr>Data = [(''data'', JObject [(''password'', JString ''hunter2'')])],
                                       Auth = None\<rparr>))\<rparr>"

definition system_token_unreadable :: System where
  "system_token_unreadable =
     example_system\<lparr>ReadFile := (\<lambda>p. Inl (ErrorString ''open: no such file or directory''))\<rparr>"

definition system_login_denied :: System where
  "system_login_denied =
     example_system\<lparr>Logical_Write := (\<lambda>c p d. Inl (ErrorString ''permission denied''))\<rparr>"

definition system_bad_address :: System where
  "system_bad_address =
     example_system\<lparr>NewClient := (\<lambda>addr. if addr = ''://vault''
                                         then Some (ErrorString ''missing protocol scheme'')
                                         else None)\<rparr>"

definition system_jwt_file_override :: System where
  "system_jwt_file_override =
     example_system\<lparr>Getenv := (\<lambda>k. if k = ''VAULT_JWT_FILE'' then ''/tmp/token'' else []),
                    ReadFile := (\<lambda>p. if p = ''/tmp/token''
                                      then Inl (ErrorString ''open /tmp/token: permission denied'')
                                      else Inr ''tok-123'')\<rparr>"

definition config_token_method :: VaultConfig where
  "config_token_method =
     \<lparr>Addr = ''://vault'', AuthMethod = ''token'', AuthPath = ''kubernetes'',
      Role = ''vault-op'', Path = ''secret/test'', SkipVerify = False, TLSSecret = [],
      ClientTimeout = 0\<rparr>"


definition example_payload :: VaultApiSecret where
  "example_payload =
     \<lparr>Data = [(''data'', JObject [(''user'', JString ''alice''), (''pass'', JString ''s3cret'')])],
      Auth = None\<rparr>"

section \<open>Running a computation\<close>

lemma andThen_returns [simp]: "andThen (returns x) f = f x"
  by (simp add: andThen_def returns_def split: prod.splits)

lemma andThen_panics [simp]: "andThen (panics p) f = panics p"
  by (simp add: andThen_def panics_def)

lemma andThen_call [simp]: "andThen (call e a) f = (e # fst (f a), snd (f a))"
  by (simp add: andThen_def call_def split: prod.splits)

lemma andThen_emit [simp]: "andThen (emit e) f = (e # fst (f ()), snd (f ()))"
  by (simp add: andThen_def emit_def split: prod.splits)

lemma andThen_Inr [simp]: "andThen (t, Inr x) f = (t @ fst (f x), snd (f x))"
  by (simp add: andThen_def split: prod.splits)

lemma andThen_Inl [simp]: "andThen (t, Inl p) f = (t, Inl p)"
  by (simp add: andThen_def)

lemma trace_simps [simp]:
  "trace (returns x) = []" "trace (panics p) = []" "trace (t, y) = t"
  "outcome (returns x) = Inr x" "outcome (panics p) = Inl p" "outcome (t, y) = y"
  by (simp_all add: trace_def outcome_def returns_def panics_def)

lemma fst_snd_run [simp]:
  "fst (returns x) = []" "snd (returns x) = Inr x" "fst (panics p) = []" "snd (panics p) = Inl p"
  by (simp_all add: returns_def panics_def)

lemmas example_defs =
  example_vaultSecret_def example_request_def example_scheme_def not_found_def
  reconciler_absent_def existing_secret_def reconciler_present_def example_system_def
  system_token_unreadable_def system_login_denied_def system_bad_address_def
  config_token_method_def example_payload_def

lemmas model_defs =
  make_config_def VaultReadSecret_def newVaultClient_def jwtFile_def login_and_read_def
  defaultJWTAuthMethod_def defaultJWTFile_def SecretMake_def SetControllerReference_def
  validateOwner_def GVKForObject_def validateControllerRef_def upsertOwnerRef_def
  GroupVersion_String_def errors_New_def string_of_bytes_def

section \<open>Facts about SecretMake\<close>

lemma SecretMake_nil_error:
  "SecretMake r es secret = Inr (s, err) \<Longrightarrow> err = None"
  by (auto simp: SecretMake_def Let_def split: sum.splits option.splits)

lemma SecretMake_nil:
  "\<exists>s. SecretMake r es None = Inr (s, None) \<and> sec_Data s = Map.empty"
  by (auto simp: SecretMake_def SetControllerReference_def upsertOwnerRef_def Let_def
      split: option.splits sum.splits)

lemma copy_entries_strings:
  "distinct (map fst strs) \<Longrightarrow>
   copy_entries (string_entries strs) m =
     Inr (m ++ (map_option bytes_of_string \<circ> map_of strs))"
proof (induction strs arbitrary: m)
  case Nil
  then show ?case by (simp add: string_entries_def map_add_def fun_eq_iff)
next
  case (Cons a strs)
  obtain k s where a: "a = (k, s)" by (cases a)
  from Cons.prems a have notin: "map_of strs k = None" and d: "distinct (map fst strs)"
    by (auto simp: map_of_eq_None_iff)
  have "copy_entries (string_entries (a # strs)) m =
          copy_entries (string_entries strs) (m(k \<mapsto> bytes_of_string s))"
    by (simp add: a string_entries_def)
  also have "\<dots> = Inr (m(k \<mapsto> bytes_of_string s) ++ (map_option bytes_of_string \<circ> map_of strs))"
    by (rule Cons.IH [OF d])
  also have "m(k \<mapsto> bytes_of_string s) ++ (map_option bytes_of_string \<circ> map_of strs) =
             m ++ (map_option bytes_of_string \<circ> map_of (a # strs))"
    using notin by (auto simp: a map_add_def fun_eq_iff split: option.splits)
  finally show ?case .
qed

lemma range_Data_no_data:
  "''data'' \<notin> fst ` set entries \<Longrightarrow> range_Data entries m = Inr m"
  by (induction entries arbitrary: m) auto

lemma range_Data_data:
  "distinct (map fst entries) \<Longrightarrow> map_of entries ''data'' = Some (JObject kvs) \<Longrightarrow>
   range_Data entries m = copy_entries kvs m"
proof (induction entries arbitrary: m)
  case Nil
  then show ?case by simp
next
  case (Cons a entries)
  obtain k v where a: "a = (k, v)" by (cases a)
  show ?case
  proof (cases "k = ''data''")
    case True
    with Cons.prems a have v: "v = JObject kvs" and no: "''data'' \<notin> fst ` set entries"
      by auto
    show ?thesis
      by (simp add: a True v range_Data_no_data [OF no] split: sum.splits)
  next
    case False
    with Cons.prems a have "distinct (map fst entries)" "map_of entries ''data'' = Some (JObject kvs)"
      by auto
    from Cons.IH [OF this] show ?thesis by (simp add: a False)
  qed
qed

lemma copy_entries_returns_iff:
  "(\<exists>m'. copy_entries kvs m = Inr m') \<longleftrightarrow> list_all (\<lambda>(kk, vv). is_string vv) kvs"
proof (induction kvs arbitrary: m)
  case Nil
  then show ?case by simp
next
  case (Cons a kvs)
  obtain kk vv where a: "a = (kk, vv)" by (cases a)
  show ?case by (cases vv) (simp_all add: a Cons.IH)
qed

lemma range_Data_returns_iff:
  "(\<exists>m'. range_Data entries m = Inr m') \<longleftrightarrow>
   list_all (\<lambda>(k, v). k = ''data'' \<longrightarrow> is_string_map v) entries"
proof (induction entries arbitrary: m)
  case Nil
  then show ?case by simp
next
  case (Cons a entries)
  obtain k v where a: "a = (k, v)" by (cases a)
  show ?case
  proof (cases "k = ''data''")
    case False
    then show ?thesis by (simp add: a Cons.IH)
  next
    case True
    show ?thesis
    proof (cases v)
      case (JObject kvs)
      show ?thesis
      proof (cases "copy_entries kvs m")
        case (Inl p)
        with copy_entries_returns_iff [of kvs m] show ?thesis
          by (simp add: a True JObject)
      next
        case (Inr m')
        with copy_entries_returns_iff [of kvs m] show ?thesis
          by (simp add: a True JObject Cons.IH)
      qed
    qed (simp_all add: a True)
  qed
qed

lemma SecretMake_returns_iff:
  "(\<exists>res. SecretMake r es secret = Inr res) \<longleftrightarrow> data_well_shaped secret"
  using range_Data_returns_iff [of "Data (the secret)" Map.empty]
  by (cases secret) (auto simp: SecretMake_def data_well_shaped_def Let_def split: sum.splits)

lemma SecretMake_data:
  "SecretMake r es secret = Inr (s, err) \<Longrightarrow>
   (case secret of None \<Rightarrow> Inr Map.empty | Some sec \<Rightarrow> range_Data (Data sec) Map.empty)
     = Inr (sec_Data s)"
  by (auto simp: SecretMake_def Let_def SetControllerReference_def upsertOwnerRef_def
      split: sum.splits option.splits)




section \<open>Facts about VaultReadSecret\<close>

lemma VaultReadSecret_starts:
  "\<exists>t. trace (VaultReadSecret sys cfg) =
     EvLogInfo (''fetching Vault secret '' @ quote @ Path cfg @ quote @ '' from the '' @ Addr cfg) # t"
  by (simp add: VaultReadSecret_def trace_def)

lemma login_and_read_error_nil:
  "snd (login_and_read sys client cfg jwt) = Inr (sd, Some e) \<Longrightarrow> sd = None"
  by (auto simp: login_and_read_def Let_def split: sum.splits option.splits)

lemma VaultReadSecret_error_nil:
  "outcome (VaultReadSecret sys cfg) = Inr (sd, Some e) \<Longrightarrow> sd = None"
  by (auto simp: VaultReadSecret_def outcome_def dest: login_and_read_error_nil split: sum.splits if_splits)

lemma login_and_read_no_create:
  "EvCreate s \<notin> set (fst (login_and_read sys client cfg jwt))"
  by (auto simp: login_and_read_def Let_def split: sum.splits option.splits)

lemma VaultReadSecret_no_create:
  "EvCreate s \<notin> set (trace (VaultReadSecret sys cfg))"
  by (auto simp: VaultReadSecret_def trace_def login_and_read_no_create split: sum.splits if_splits)

lemma login_and_read_no_ReadFile:
  "EvReadFile p \<notin> set (fst (login_and_read sys client cfg jwt))"
  by (auto simp: login_and_read_def Let_def split: sum.splits option.splits)

lemma login_and_read_logs:
  "EvLogError e m kvs \<in> set (fst (login_and_read sys client cfg jwt)) \<Longrightarrow> take 1 m \<noteq> ''F''"
  by (auto simp: login_and_read_def Let_def split: sum.splits option.splits)

lemma VaultReadSecret_logs:
  "EvLogError e m kvs \<in> set (trace (VaultReadSecret sys cfg)) \<Longrightarrow> take 1 m \<noteq> ''F''"
  by (auto simp: VaultReadSecret_def trace_def dest: login_and_read_logs
      split: sum.splits if_splits)

section \<open>The paths of Reconcile\<close>

text \<open>
  \<open>Reconcile\<close> has four paths after its first log line: the request cannot be loaded;
  the child Secret exists; its lookup fails for another reason than not-found; it is
  absent. The last path runs \<open>create_child\<close>, which either panics (in the fetch or in
  \<open>SecretMake\<close>) or reaches the create call.
\<close>

lemma create_child_run:
  assumes "outcome (VaultReadSecret sys cfg) = Inr (sd, err)"
      and "SecretMake r vs sd = Inr (secret, None)"
  shows "create_child r sys vs cfg =
    (trace (VaultReadSecret sys cfg)
      @ (case err of Some e \<Rightarrow> [EvLogError e ''can't read the data from the Vault'' []]
                   | None \<Rightarrow> [])
      @ [EvLogInfo (''deploying a new child Secret: '' @ sec_Name secret @ '' at ''
                      @ sec_Namespace secret @ '' namespace''),
         EvCreate secret]
      @ (case Create (Client r) secret of
           Some ce \<Rightarrow> [EvLogError ce (''failed to deploy a child Secret '' @ sec_Name secret
                                       @ '' at '' @ sec_Namespace secret @ '' namespace'') []]
         | None \<Rightarrow> []),
     Inr (case Create (Client r) secret of
            None \<Rightarrow> (\<lparr>Requeue = True, RequeueAfter = 0\<rparr>, None)
          | Some ce \<Rightarrow> (\<lparr>Requeue = False, RequeueAfter = 0\<rparr>, Some ce)))"
  using assms
  by (cases "VaultReadSecret sys cfg")
     (auto simp: create_child_def andThen_def emit_def call_def returns_def
        split: option.splits)

lemma create_child_fetch_panic:
  "outcome (VaultReadSecret sys cfg) = Inl p \<Longrightarrow>
   create_child r sys vs cfg = (trace (VaultReadSecret sys cfg), Inl p)"
  by (cases "VaultReadSecret sys cfg") (simp add: create_child_def)

lemma create_child_make_panic:
  "outcome (VaultReadSecret sys cfg) = Inr (sd, err) \<Longrightarrow> SecretMake r vs sd = Inl p \<Longrightarrow>
   create_child r sys vs cfg =
     (trace (VaultReadSecret sys cfg)
        @ (case err of Some e \<Rightarrow> [EvLogError e ''can't read the data from the Vault'' []]
                     | None \<Rightarrow> []),
      Inl p)"
  by (cases "VaultReadSecret sys cfg") (auto simp: create_child_def split: option.splits)

lemma create_child_panic:
  assumes "outcome (create_child r sys vs cfg) = Inl p"
  shows "EvCreate s \<notin> set (trace (create_child r sys vs cfg))"
proof (cases "outcome (VaultReadSecret sys cfg)")
  case (Inl q)
  then show ?thesis
    using VaultReadSecret_no_create [of s sys cfg]
    by (cases "VaultReadSecret sys cfg")
       (auto simp: create_child_def andThen_def trace_def outcome_def)
next
  case (Inr a)
  obtain sd err where a: "a = (sd, err)" by (cases a)
  show ?thesis
  proof (cases "SecretMake r vs sd")
    case (Inl q)
    then show ?thesis
      using Inr a VaultReadSecret_no_create [of s sys cfg]
      by (cases "VaultReadSecret sys cfg")
         (auto simp: create_child_def andThen_def emit_def returns_def panics_def
            split: option.splits)
  next
    case (Inr b)
    obtain secret e where b: "b = (secret, e)" by (cases b)
    with Inr SecretMake_nil_error have "SecretMake r vs sd = Inr (secret, None)" by blast
    from create_child_run [OF \<open>outcome (VaultReadSecret sys cfg) = Inr a\<close> [unfolded a] this] assms
    show ?thesis by (simp add: outcome_def)
  qed
qed

lemma create_child_logs:
  assumes "EvLogError e m kvs \<in> set (trace (create_child r sys vs cfg))"
  shows "take 1 m \<noteq> ''F''"
proof (cases "outcome (VaultReadSecret sys cfg)")
  case (Inl p)
  with assms show ?thesis
    by (auto simp: create_child_fetch_panic [OF Inl] dest: VaultReadSecret_logs)
next
  case (Inr a)
  obtain sd err where fetch: "outcome (VaultReadSecret sys cfg) = Inr (sd, err)"
    using Inr by (cases a) simp
  show ?thesis
  proof (cases "SecretMake r vs sd")
    case (Inl p)
    with assms show ?thesis
      by (auto simp: create_child_make_panic [OF fetch Inl] dest: VaultReadSecret_logs
          split: option.splits)
  next
    case (Inr b)
    obtain secret where mk: "SecretMake r vs sd = Inr (secret, None)"
      using Inr SecretMake_nil_error [of r vs sd] by (cases b) auto
    from assms show ?thesis
      by (auto simp: create_child_run [OF fetch mk] dest: VaultReadSecret_logs
          split: option.splits)
  qed
qed

lemma Reconcile_request_error:
  "Get_VaultSecret (Client r) (NamespacedName req) = Inl err \<Longrightarrow>
   Reconcile r sys req =
     ([EvLogInfo (''starting vaultSecretReconciler for: '' @ quote @ Name (NamespacedName req) @ quote),
       EvGetVaultSecret (NamespacedName req),
       EvLogError err ''unable to get vaultSecret resource'' []],
      Inr (\<lparr>Requeue = False, RequeueAfter = 0\<rparr>, IgnoreNotFound (Some err)))"
  by (simp add: Reconcile_def)

lemma Reconcile_found:
  "Get_VaultSecret (Client r) (NamespacedName req) = Inr vs \<Longrightarrow>
   Get_Secret (Client r) \<lparr>Namespace = vs_Namespace vs, Name = vs_Name vs\<rparr> = Inr found \<Longrightarrow>
   Reconcile r sys req =
     ([EvLogInfo (''starting vaultSecretReconciler for: '' @ quote @ Name (NamespacedName req) @ quote),
       EvGetVaultSecret (NamespacedName req),
       EvGetSecret \<lparr>Namespace = vs_Namespace vs, Name = vs_Name vs\<rparr>],
      Inr (\<lparr>Requeue = False, RequeueAfter = 0\<rparr>, None))"
  by (simp add: Reconcile_def Let_def)

lemma Reconcile_lookup_error:
  "Get_VaultSecret (Client r) (NamespacedName req) = Inr vs \<Longrightarrow>
   Get_Secret (Client r) \<lparr>Namespace = vs_Namespace vs, Name = vs_Name vs\<rparr> = Inl e \<Longrightarrow>
   \<not> IsNotFound (Some e) \<Longrightarrow>
   Reconcile r sys req =
     ([EvLogInfo (''starting vaultSecretReconciler for: '' @ quote @ Name (NamespacedName req) @ quote),
       EvGetVaultSecret (NamespacedName req),
       EvGetSecret \<lparr>Namespace = vs_Namespace vs, Name = vs_Name vs\<rparr>,
       EvLogError e ''unable to get child Secret for the'' [vs_Name vs]],
      Inr (\<lparr>Requeue = False, RequeueAfter = 0\<rparr>, Some e))"
  by (simp add: Reconcile_def Let_def)

lemma Reconcile_absent:
  "Get_VaultSecret (Client r) (NamespacedName req) = Inr vs \<Longrightarrow>
   Get_Secret (Client r) \<lparr>Namespace = vs_Namespace vs, Name = vs_Name vs\<rparr> = Inl e \<Longrightarrow>
   IsNotFound (Some e) \<Longrightarrow>
   Reconcile r sys req =
     ([EvLogInfo (''starting vaultSecretReconciler for: '' @ quote @ Name (NamespacedName req) @ quote),
       EvGetVaultSecret (NamespacedName req),
       EvGetSecret \<lparr>Namespace = vs_Namespace vs, Name = vs_Name vs\<rparr>]
        @ trace (create_child r sys vs (make_config vs)),
      outcome (create_child r sys vs (make_config vs)))"
  by (simp add: Reconcile_def Let_def trace_def outcome_def)

lemma Reconcile_logs:
  assumes "EvLogError e m kvs \<in> set (trace (Reconcile r sys req))"
  shows "take 1 m \<noteq> ''F''"
proof (cases "Get_VaultSecret (Client r) (NamespacedName req)")
  case (Inl err)
  with assms show ?thesis by (auto simp: Reconcile_request_error [OF Inl])
next
  case (Inr vs)
  show ?thesis
  proof (cases "Get_Secret (Client r) \<lparr>Namespace = vs_Namespace vs, Name = vs_Name vs\<rparr>")
    case found: (Inr found)
    with assms show ?thesis by (simp add: Reconcile_found [OF Inr found])
  next
    case lookup: (Inl e0)
    show ?thesis
    proof (cases "IsNotFound (Some e0)")
      case False
      with assms show ?thesis by (auto simp: Reconcile_lookup_error [OF Inr lookup False])
    next
      case True
      with assms show ?thesis
        by (auto simp: Reconcile_absent [OF Inr lookup True] dest: create_child_logs)
    qed
  qed
qed

section \<open>The claims\<close>

text \<open>
  Claim C1. When the request is loaded and the lookup of its child Secret succeeds,
  \<open>Reconcile\<close> returns successfully with no requeue, and its whole trace is the first
  log line and the two lookups: no call of \<open>VaultReadSecret\<close> (whose first event is its
  own log line), no read of the token file, no login, no read from the store, and no
  create of a Secret. The controller has no update call at all.
\<close>

theorem C1_existing_secret_is_noop:
  assumes "Get_VaultSecret (Client r) (NamespacedName req) = Inr vs"
      and "Get_Secret (Client r) \<lparr>Namespace = vs_Namespace vs, Name = vs_Name vs\<rparr> = Inr found"
  shows "outcome (Reconcile r sys req) = Inr (\<lparr>Requeue = False, RequeueAfter = 0\<rparr>, None)
       \<and> trace (Reconcile r sys req) =
           [EvLogInfo (''starting vaultSecretReconciler for: '' @ quote
                         @ Name (NamespacedName req) @ quote),
            EvGetVaultSecret (NamespacedName req),
            EvGetSecret \<lparr>Namespace = vs_Namespace vs, Name = vs_Name vs\<rparr>]
       \<and> (\<forall>cfg. hd (trace (VaultReadSecret sys cfg)) \<notin> set (trace (Reconcile r sys req)))
       \<and> (\<forall>p. EvReadFile p \<notin> set (trace (Reconcile r sys req)))
       \<and> (\<forall>p d. EvVaultWrite p d \<notin> set (trace (Reconcile r sys req)))
       \<and> (\<forall>t p. EvVaultRead t p \<notin> set (trace (Reconcile r sys req)))
       \<and> (\<forall>s. EvCreate s \<notin> set (trace (Reconcile r sys req)))"
proof -
  have starts: "hd (trace (VaultReadSecret sys cfg)) =
      EvLogInfo (''fetching Vault secret '' @ quote @ Path cfg @ quote @ '' from the '' @ Addr cfg)"
    for cfg
    using VaultReadSecret_starts [of sys cfg] by auto
  show ?thesis
    unfolding Reconcile_found [OF assms] starts by simp
qed

text \<open>The hypotheses of C1 hold of the example reconciler whose child Secret exists.\<close>

theorem C1_witness:
  "outcome (Reconcile reconciler_present example_system example_request)
     = Inr (\<lparr>Requeue = False, RequeueAfter = 0\<rparr>, None)
   \<and> length (trace (Reconcile reconciler_present example_system example_request)) = 3"
  using C1_existing_secret_is_noop
    [of reconciler_present example_request example_vaultSecret existing_secret example_system]
  by (simp add: reconciler_present_def)

text \<open>
  Claim C2. The claim says that an authentication-class failure of the fetch (the token
  file cannot be read, the login exchange fails) is returned by \<open>Reconcile\<close> and stops
  the creation. The code logs the error and goes on: with an unreadable token file, and
  with a denied login, \<open>VaultReadSecret\<close> returns the error and \<open>Reconcile\<close> still
  returns a nil error with the requeue flag set, after creating the Secret.
\<close>

theorem C2_auth_error_not_returned:
  "outcome (Reconcile reconciler_absent system_token_unreadable example_request)
     = Inr (\<lparr>Requeue = True, RequeueAfter = 0\<rparr>, None)
   \<and> outcome (Reconcile reconciler_absent system_login_denied example_request)
     = Inr (\<lparr>Requeue = True, RequeueAfter = 0\<rparr>, None)
   \<and> outcome (VaultReadSecret system_token_unreadable (make_config example_vaultSecret))
     = Inr (None, Some (ErrorString ''open: no such file or directory''))
   \<and> outcome (VaultReadSecret system_login_denied (make_config example_vaultSecret))
     = Inr (None, Some (ErrorString ''permission denied''))
   \<and> (\<exists>secret. sec_Data secret = Map.empty
         \<and> EvCreate secret
              \<in> set (trace (Reconcile reconciler_absent system_token_unreadable
                                example_request)))"
  by (simp add: Reconcile_def create_child_def model_defs example_defs outcome_def trace_def
      Let_def)

text \<open>
  Claim C3. When the child Secret is absent and \<open>VaultReadSecret\<close> returns an error,
  \<open>Reconcile\<close> logs that error, builds a Secret from the nil payload, whose data map is
  empty, and issues the create call for it; what \<open>Reconcile\<close> returns is decided by
  the create call alone, not by the fetch error.
\<close>

theorem C3_fetch_error_is_logged_and_secret_created_empty:
  assumes "Get_VaultSecret (Client r) (NamespacedName req) = Inr vs"
      and "Get_Secret (Client r) \<lparr>Namespace = vs_Namespace vs, Name = vs_Name vs\<rparr> = Inl e0"
      and "IsNotFound (Some e0)"
      and "outcome (VaultReadSecret sys (make_config vs)) = Inr (secData, Some e)"
  shows "\<exists>secret.
           secData = None
         \<and> SecretMake r vs secData = Inr (secret, None)
         \<and> sec_Data secret = Map.empty
         \<and> EvLogError e ''can't read the data from the Vault'' []
              \<in> set (trace (Reconcile r sys req))
         \<and> EvCreate secret \<in> set (trace (Reconcile r sys req))
         \<and> outcome (Reconcile r sys req) =
              Inr (case Create (Client r) secret of
                     None \<Rightarrow> (\<lparr>Requeue = True, RequeueAfter = 0\<rparr>, None)
                   | Some ce \<Rightarrow> (\<lparr>Requeue = False, RequeueAfter = 0\<rparr>, Some ce))"
proof -
  from VaultReadSecret_error_nil [OF assms(4)] have nil: "secData = None" .
  from SecretMake_nil [of r vs] obtain secret
    where mk: "SecretMake r vs None = Inr (secret, None)" and empty: "sec_Data secret = Map.empty"
    by blast
  note run = create_child_run [OF assms(4) mk [folded nil]]
  show ?thesis
    using mk empty
    by (intro exI [of _ secret])
       (simp add: nil Reconcile_absent [OF assms(1-3)] run)
qed

text \<open>The hypotheses of C3 hold when the login is denied and the child Secret is absent.\<close>

theorem C3_witness:
  "\<exists>secret. sec_Data secret = Map.empty
      \<and> EvCreate secret \<in> set (trace (Reconcile reconciler_absent system_login_denied example_request))
      \<and> outcome (Reconcile reconciler_absent system_login_denied example_request)
          = Inr (\<lparr>Requeue = True, RequeueAfter = 0\<rparr>, None)"
proof -
  have fetch: "outcome (VaultReadSecret system_login_denied (make_config example_vaultSecret))
      = Inr (None, Some (ErrorString ''permission denied''))"
    by (simp add: model_defs example_defs outcome_def)
  have nf: "IsNotFound (Some not_found)"
    by (simp add: not_found_def)
  from C3_fetch_error_is_logged_and_secret_created_empty
         [of reconciler_absent example_request example_vaultSecret not_found
             system_login_denied None "ErrorString ''permission denied''", OF _ _ nf fetch]
  show ?thesis
    by (auto simp: reconciler_absent_def)
qed

text \<open>
  Claim C4. For a non-nil payload whose \<^verbatim>\<open>"data"\<close> entry is a map of string keys to
  string values, \<open>SecretMake\<close> returns a Secret whose data map has exactly those keys,
  each mapped to the bytes of its string; the other entries of the payload contribute
  nothing. (The keys of a Go map are distinct.)
\<close>

theorem C4_data_entries_are_copied:
  assumes "distinct (map fst (Data payload))"
      and "map_of (Data payload) ''data'' = Some (JObject (string_entries strs))"
      and "distinct (map fst strs)"
  shows "\<exists>s. SecretMake r es (Some payload) = Inr (s, None)
           \<and> sec_Data s = map_option bytes_of_string \<circ> map_of strs
           \<and> dom (sec_Data s) = fst ` set strs"
proof -
  have "range_Data (Data payload) Map.empty = copy_entries (string_entries strs) Map.empty"
    by (rule range_Data_data [OF assms(1,2)])
  also have "\<dots> = Inr (Map.empty ++ (map_option bytes_of_string \<circ> map_of strs))"
    by (rule copy_entries_strings [OF assms(3)])
  finally have rd: "range_Data (Data payload) Map.empty =
      Inr (map_option bytes_of_string \<circ> map_of strs)"
    by simp
  obtain s where mk: "SecretMake r es (Some payload) = Inr (s, None)"
    by (simp add: SecretMake_def rd Let_def)
  from SecretMake_data [OF mk] rd have data: "sec_Data s = map_option bytes_of_string \<circ> map_of strs"
    by simp
  have "dom (map_option bytes_of_string \<circ> map_of strs) = dom (map_of strs)"
    by (auto simp: dom_def)
  then have "dom (map_option bytes_of_string \<circ> map_of strs) = fst ` set strs"
    by (simp add: dom_map_of_conv_image_fst)
  with mk data show ?thesis by simp
qed

text \<open>The payload \<^verbatim>\<open>{data: {"user": "alice", "pass": "s3cret"}}\<close> of the claim.\<close>

theorem C4_witness:
  "\<exists>s. SecretMake reconciler_absent example_vaultSecret (Some example_payload) = Inr (s, None)
      \<and> sec_Data s = [''user'' \<mapsto> bytes_of_string ''alice'', ''pass'' \<mapsto> bytes_of_string ''s3cret'']
      \<and> dom (sec_Data s) = {''user'', ''pass''}"
proof -
  have entries: "map_of (Data example_payload) ''data''
      = Some (JObject (string_entries [(''user'', ''alice''), (''pass'', ''s3cret'')]))"
    by (simp add: example_payload_def string_entries_def)
  have d1: "distinct (map fst (Data example_payload))"
    by (simp add: example_payload_def)
  have d2: "distinct (map fst [(''user'', ''alice''), (''pass'', ''s3cret'')])"
    by simp
  from C4_data_entries_are_copied [OF d1 entries d2, of reconciler_absent example_vaultSecret]
  obtain s where
    "SecretMake reconciler_absent example_vaultSecret (Some example_payload) = Inr (s, None)"
    "sec_Data s = map_option bytes_of_string \<circ> map_of [(''user'', ''alice''), (''pass'', ''s3cret'')]"
    "dom (sec_Data s) = fst ` set [(''user'', ''alice''), (''pass'', ''s3cret'')]"
    by blast
  then show ?thesis
    by (intro exI [of _ s]) (auto simp: fun_eq_iff)
qed

text \<open>
  Claim C5. Whenever \<open>Reconcile\<close> returns, its requeue flag is set exactly when a
  create call was made and succeeded; when the create call fails, \<open>Reconcile\<close> returns
  that error with the requeue flag unset.
\<close>

theorem C5_requeue_iff_create_succeeds:
  "(\<forall>res err. outcome (Reconcile r sys req) = Inr (res, err) \<longrightarrow>
      (Requeue res \<longleftrightarrow>
         (\<exists>s. EvCreate s \<in> set (trace (Reconcile r sys req)) \<and> Create (Client r) s = None)))
   \<and> (\<forall>s e. EvCreate s \<in> set (trace (Reconcile r sys req)) \<and> Create (Client r) s = Some e \<longrightarrow>
         outcome (Reconcile r sys req) = Inr (\<lparr>Requeue = False, RequeueAfter = 0\<rparr>, Some e))"
proof (cases "Get_VaultSecret (Client r) (NamespacedName req)")
  case (Inl err)
  show ?thesis by (simp add: Reconcile_request_error [OF Inl])
next
  case (Inr vs)
  let ?key = "\<lparr>Namespace = vs_Namespace vs, Name = vs_Name vs\<rparr>"
  show ?thesis
  proof (cases "Get_Secret (Client r) ?key")
    case found: (Inr found)
    show ?thesis by (simp add: Reconcile_found [OF Inr found])
  next
    case lookup: (Inl e0)
    show ?thesis
    proof (cases "IsNotFound (Some e0)")
      case False
      show ?thesis by (simp add: Reconcile_lookup_error [OF Inr lookup False])
    next
      case True
      note absent = Reconcile_absent [OF Inr lookup True]
      let ?cfg = "make_config vs"
      show ?thesis
      proof (cases "outcome (create_child r sys vs ?cfg)")
        case (Inl p)
        from create_child_panic [OF Inl] show ?thesis
          by (simp add: absent Inl)
      next
        case ret: (Inr a)
        obtain sd err where fetch: "outcome (VaultReadSecret sys ?cfg) = Inr (sd, err)"
          using ret
          by (cases "VaultReadSecret sys ?cfg")
             (auto simp: create_child_def andThen_def outcome_def split: sum.splits)
        obtain secret where mk: "SecretMake r vs sd = Inr (secret, None)"
          using ret fetch SecretMake_nil_error [of r vs sd]
          by (cases "VaultReadSecret sys ?cfg"; cases "SecretMake r vs sd")
             (auto simp: create_child_def andThen_def outcome_def emit_def returns_def
                panics_def split: sum.splits option.splits)
        note run = create_child_run [OF fetch mk]
        have nc: "EvCreate s \<notin> set (trace (VaultReadSecret sys ?cfg))" for s
          by (rule VaultReadSecret_no_create)
        show ?thesis
          by (cases "Create (Client r) secret")
             (auto simp: absent run nc split: option.splits)
      qed
    qed
  qed
qed

text \<open>In the scenario of the specification the create call succeeds and requeue is set.\<close>

theorem C5_witness:
  "outcome (Reconcile reconciler_absent example_system example_request)
     = Inr (\<lparr>Requeue = True, RequeueAfter = 0\<rparr>, None)
   \<and> (\<exists>s. EvCreate s \<in> set (trace (Reconcile reconciler_absent example_system example_request))
          \<and> Create (Client reconciler_absent) s = None)"
proof -
  have out: "outcome (Reconcile reconciler_absent example_system example_request)
     = Inr (\<lparr>Requeue = True, RequeueAfter = 0\<rparr>, None)"
    by (simp add: Reconcile_def create_child_def model_defs example_defs outcome_def Let_def)
  with C5_requeue_iff_create_succeeds [of reconciler_absent example_system example_request]
  show ?thesis by simp
qed

text \<open>
  Claim C6, as stated, fails: \<open>VaultReadSecret\<close> constructs the client before it looks
  at the authentication method, so with a store address the client library rejects, a
  config of another method gets the construction error, not the "unsupported Auth
  method" error.
\<close>

theorem C6_counterexample:
  "AuthMethod config_token_method \<noteq> ''jwt''
   \<and> outcome (VaultReadSecret system_bad_address config_token_method)
       = Inr (None, Some (ErrorString ''missing protocol scheme''))
   \<and> ErrorString ''missing protocol scheme''
       \<noteq> errors_New (''unsupported Auth method: '' @ AuthMethod config_token_method)"
  by (simp add: model_defs example_defs outcome_def)

text \<open>
  Claim C6, amended. For every config whose authentication method is not \<^verbatim>\<open>jwt\<close>,
  \<open>VaultReadSecret\<close> makes no call after its log line (no token file read, no login,
  no read from the store) and returns an error: the "unsupported Auth method" error
  when the client construction succeeds, the construction error otherwise. \<open>Reconcile\<close>
  always configures the \<^verbatim>\<open>jwt\<close> method, so no request reaches this gate.
\<close>

theorem C6_other_method_makes_no_exchange:
  assumes "AuthMethod cfg \<noteq> ''jwt''"
  shows "trace (VaultReadSecret sys cfg) =
           [EvLogInfo (''fetching Vault secret '' @ quote @ Path cfg @ quote
                         @ '' from the '' @ Addr cfg)]
       \<and> outcome (VaultReadSecret sys cfg) =
           Inr (None, Some (case newVaultClient sys cfg of
                              Inl err \<Rightarrow> err
                            | Inr client \<Rightarrow>
                                errors_New (''unsupported Auth method: '' @ AuthMethod cfg)))
       \<and> AuthMethod (make_config vs) = ''jwt''"
  using assms
  by (simp add: VaultReadSecret_def defaultJWTAuthMethod_def make_config_def trace_def
      outcome_def split: sum.splits)

text \<open>A config of the method \<^verbatim>\<open>token\<close> with an address the client accepts.\<close>

theorem C6_witness:
  "AuthMethod (config_token_method\<lparr>Addr := ''http://vault:8200''\<rparr>) \<noteq> ''jwt''
   \<and> outcome (VaultReadSecret example_system (config_token_method\<lparr>Addr := ''http://vault:8200''\<rparr>))
       = Inr (None, Some (ErrorString ''unsupported Auth method: token''))
   \<and> length (trace (VaultReadSecret example_system
                      (config_token_method\<lparr>Addr := ''http://vault:8200''\<rparr>))) = 1"
  using C6_other_method_makes_no_exchange
    [of "config_token_method\<lparr>Addr := ''http://vault:8200''\<rparr>" example_system]
  by (simp add: config_token_method_def example_system_def newVaultClient_def errors_New_def)




text \<open>
  Claim C8. The only file \<open>VaultReadSecret\<close> reads is the one named by
  \<^verbatim>\<open>KUBERNETES_SERVICE_ACCOUNT_TOKEN\<close> when that is non-empty, else by
  \<^verbatim>\<open>VAULT_JWT_FILE\<close> when that is non-empty, else the default path; once the client
  is constructed and the method is \<^verbatim>\<open>jwt\<close> that file is read, and when reading it
  fails \<open>VaultReadSecret\<close> returns the read error.
\<close>

theorem C8_token_file_resolution:
  "(let tokenFile =
      (if Getenv sys ''KUBERNETES_SERVICE_ACCOUNT_TOKEN'' \<noteq> []
       then Getenv sys ''KUBERNETES_SERVICE_ACCOUNT_TOKEN''
       else if Getenv sys ''VAULT_JWT_FILE'' \<noteq> [] then Getenv sys ''VAULT_JWT_FILE''
       else ''/var/run/secrets/kubernetes.io/serviceaccount/token'')
    in (\<forall>p. EvReadFile p \<in> set (trace (VaultReadSecret sys cfg)) \<longrightarrow> p = tokenFile)
     \<and> (\<forall>client. newVaultClient sys cfg = Inr client \<and> AuthMethod cfg = ''jwt'' \<longrightarrow>
           EvReadFile tokenFile \<in> set (trace (VaultReadSecret sys cfg)))
     \<and> (\<forall>client e. newVaultClient sys cfg = Inr client \<and> AuthMethod cfg = ''jwt''
             \<and> ReadFile sys tokenFile = Inl e \<longrightarrow>
           outcome (VaultReadSecret sys cfg) = Inr (None, Some e)))"
  using login_and_read_no_ReadFile [of _ sys _ cfg]
  by (auto simp: Let_def VaultReadSecret_def jwtFile_def defaultJWTFile_def
      defaultJWTAuthMethod_def trace_def outcome_def split: sum.splits)

text \<open>Only \<^verbatim>\<open>VAULT_JWT_FILE\<close> is set, and the file it names cannot be read.\<close>

theorem C8_witness:
  "EvReadFile ''/tmp/token''
     \<in> set (trace (VaultReadSecret system_jwt_file_override (make_config example_vaultSecret)))
   \<and> outcome (VaultReadSecret system_jwt_file_override (make_config example_vaultSecret))
       = Inr (None, Some (ErrorString ''open /tmp/token: permission denied''))"
proof -
  have client: "newVaultClient system_jwt_file_override (make_config example_vaultSecret)
      = Inr \<lparr>client_Address = ''http://vault:8200'', client_Token = []\<rparr>"
    by (simp add: model_defs example_defs system_jwt_file_override_def)
  have jwt: "AuthMethod (make_config example_vaultSecret) = ''jwt''"
    by (simp add: make_config_def defaultJWTAuthMethod_def)
  from C8_token_file_resolution
         [of system_jwt_file_override "make_config example_vaultSecret"] client jwt
  show ?thesis
    by (simp add: Let_def system_jwt_file_override_def example_system_def)
qed

text \<open>
  Claim C9. \<open>SecretMake\<close> panics on a payload whose \<^verbatim>\<open>"data"\<close> entry is not a map,
  and on one whose \<^verbatim>\<open>"data"\<close> map holds a value that is not a string; it returns
  exactly when every \<^verbatim>\<open>"data"\<close> entry of the payload has the expected shape (or the
  payload is nil).
\<close>

theorem C9_SecretMake_panics_on_other_shapes:
  "SecretMake r es (Some \<lparr>Data = [(''data'', JString ''plain'')], Auth = None\<rparr>)
     = Inl (TypeAssertionPanic
              ''interface conversion: interface {} is not map[string]interface {}'')
   \<and> SecretMake r es (Some \<lparr>Data = [(''data'', JObject [(''port'', JNumber ''8200'')])],
                              Auth = None\<rparr>)
     = Inl (TypeAssertionPanic ''interface conversion: interface {} is not string'')
   \<and> ((\<exists>res. SecretMake r es secret = Inr res) \<longleftrightarrow> data_well_shaped secret)"
proof (intro conjI)
  show "(\<exists>res. SecretMake r es secret = Inr res) \<longleftrightarrow> data_well_shaped secret"
    by (rule SecretMake_returns_iff)
qed (simp_all add: SecretMake_def)

text \<open>A payload of the expected shape, and one whose \<^verbatim>\<open>"data"\<close> entry is null.\<close>

theorem C9_witness:
  "data_well_shaped (Some example_payload)
   \<and> (\<exists>res. SecretMake reconciler_absent example_vaultSecret (Some example_payload) = Inr res)
   \<and> \<not> data_well_shaped (Some \<lparr>Data = [(''data'', JNil)], Auth = None\<rparr>)
   \<and> (\<nexists>res. SecretMake reconciler_absent example_vaultSecret
                 (Some \<lparr>Data = [(''data'', JNil)], Auth = None\<rparr>) = Inr res)"
proof -
  have ok: "data_well_shaped (Some example_payload)"
    by (simp add: data_well_shaped_def example_payload_def)
  have bad: "\<not> data_well_shaped (Some \<lparr>Data = [(''data'', JNil)], Auth = None\<rparr>)"
    by (simp add: data_well_shaped_def)
  from ok bad
    C9_SecretMake_panics_on_other_shapes
      [of reconciler_absent example_vaultSecret "Some example_payload"]
    C9_SecretMake_panics_on_other_shapes
      [of reconciler_absent example_vaultSecret "Some \<lparr>Data = [(''data'', JNil)], Auth = None\<rparr>"]
  show ?thesis by blast
qed

text \<open>
  Claim C10. Whenever \<open>SecretMake\<close> returns, its error is nil, and it does return on
  the nil payload; so the branch of \<open>Reconcile\<close> that reports a failure of
  \<open>SecretMake\<close> is never taken: no run of \<open>Reconcile\<close> logs its message.
\<close>

theorem C10_SecretMake_error_is_always_nil:
  "(\<forall>s err. SecretMake r es secret = Inr (s, err) \<longrightarrow> err = None)
   \<and> (\<exists>s. SecretMake r es None = Inr (s, None))
   \<and> (\<forall>e name kvs.
        EvLogError e (''Failed to generate a Secret resource for the '' @ name) kvs
          \<notin> set (trace (Reconcile r sys req)))"
proof (intro conjI allI impI)
  fix s err assume "SecretMake r es secret = Inr (s, err)"
  then show "err = None" by (rule SecretMake_nil_error)
next
  from SecretMake_nil [of r es] show "\<exists>s. SecretMake r es None = Inr (s, None)" by blast
next
  fix e name kvs
  show "EvLogError e (''Failed to generate a Secret resource for the '' @ name) kvs
          \<notin> set (trace (Reconcile r sys req))"
    using Reconcile_logs
      [of e "''Failed to generate a Secret resource for the '' @ name" kvs r sys req]
    by auto
qed

text \<open>The error returned for the example payload is nil.\<close>

theorem C10_witness:
  "\<exists>s. SecretMake reconciler_absent example_vaultSecret (Some example_payload) = Inr (s, None)"
proof -
  obtain s err where mk:
    "SecretMake reconciler_absent example_vaultSecret (Some example_payload) = Inr (s, err)"
    by (simp add: SecretMake_def example_payload_def Let_def bytes_of_string_def)
  with C10_SecretMake_error_is_always_nil
         [of reconciler_absent example_vaultSecret "Some example_payload"]
  have "err = None" by blast
  with mk show ?thesis by blast
qed

end
